theory Spec2Isabelle
  imports Complex_Main "HOL-Library.Word" "HOL-Library.Sublist"
begin

section \<open>JavaScript values\<close>

text \<open>
  A JavaScript string is a sequence of UTF-16 code units. The source's string literals
  are ASCII; \<open>ascii\<close> turns a HOL string into the code units of the same characters.
\<close>

type_synonym code_unit = "16 word"
type_synonym jsstring = "code_unit list"

definition ascii :: "string \<Rightarrow> jsstring" where
  "ascii s = map (\<lambda>c. word_of_nat (of_char c)) s"

text \<open>
  The exceptions of the program: TypeError and URIError from the encoder, and whatever
  the QR rendering library rejects with.
\<close>

datatype error = TypeError | URIError | QRCodeError

text \<open>
  The form data reaches \<open>generateQRData\<close> as \<open>data: any\<close>: an object whose
  properties are strings, booleans, or missing. The object is the list of its
  properties, each a name and a value; reading a missing property gives \<open>undefined\<close>.
\<close>

datatype jsval = Undefined | JString jsstring | JBoolean bool

type_synonym formdata = "(string \<times> jsval) list"

definition getProp :: "formdata \<Rightarrow> string \<Rightarrow> jsval" where
  "getProp data k = (case map_of data k of None \<Rightarrow> Undefined | Some v \<Rightarrow> v)"

text \<open>\<open>ToString\<close>, applied to every \<open>${...}\<close> of a template literal.\<close>

fun ToString :: "jsval \<Rightarrow> jsstring" where
  "ToString Undefined = ascii ''undefined''"
| "ToString (JString s) = s"
| "ToString (JBoolean b) = (if b then ascii ''true'' else ascii ''false'')"

text \<open>\<open>ToBoolean\<close>, applied by \<open>||\<close> and by \<open>? :\<close>.\<close>

fun ToBoolean :: "jsval \<Rightarrow> bool" where
  "ToBoolean Undefined = False"
| "ToBoolean (JString s) = (s \<noteq> [])"
| "ToBoolean (JBoolean b) = b"

text \<open>\<open>v || ""\<close>\<close>

definition or_empty :: "jsval \<Rightarrow> jsval" where
  "or_empty v = (if ToBoolean v then v else JString [])"

text \<open>\<open>s.startsWith(p)\<close>, with the default position 0.\<close>

definition startsWith :: "jsstring \<Rightarrow> jsstring \<Rightarrow> bool" where
  "startsWith s p = prefix p s"

section \<open>encodeURIComponent\<close>

text \<open>
  The built-in follows ECMA-262 (Encode with no extra unescaped characters): a code unit
  among the ASCII word characters and \<open>-.!~*'()\<close> is copied; any other code point is
  written as the \<open>%XX\<close> of each octet of its UTF-8 form; an unpaired surrogate raises
  URIError.
\<close>

definition unescaped :: "code_unit \<Rightarrow> bool" where
  "unescaped c =
     ((0x41 \<le> c \<and> c \<le> 0x5A) \<or> (0x61 \<le> c \<and> c \<le> 0x7A) \<or> (0x30 \<le> c \<and> c \<le> 0x39)
      \<or> c = 0x5F \<or> c = 0x2D \<or> c = 0x2E \<or> c = 0x21 \<or> c = 0x7E \<or> c = 0x2A
      \<or> c = 0x27 \<or> c = 0x28 \<or> c = 0x29)"

definition is_lead :: "code_unit \<Rightarrow> bool" where
  "is_lead c = (0xD800 \<le> c \<and> c \<le> 0xDBFF)"

definition is_trail :: "code_unit \<Rightarrow> bool" where
  "is_trail c = (0xDC00 \<le> c \<and> c \<le> 0xDFFF)"

definition pair_code_point :: "code_unit \<Rightarrow> code_unit \<Rightarrow> nat" where
  "pair_code_point c d = (unat c - 0xD800) * 0x400 + (unat d - 0xDC00) + 0x10000"

definition utf8 :: "nat \<Rightarrow> nat list" where
  "utf8 cp =
     (if cp < 0x80 then [cp]
      else if cp < 0x800 then [0xC0 + cp div 64, 0x80 + cp mod 64]
      else if cp < 0x10000 then
        [0xE0 + cp div 4096, 0x80 + (cp div 64) mod 64, 0x80 + cp mod 64]
      else
        [0xF0 + cp div 262144, 0x80 + (cp div 4096) mod 64,
         0x80 + (cp div 64) mod 64, 0x80 + cp mod 64])"

definition hex_digit :: "nat \<Rightarrow> code_unit" where
  "hex_digit n = word_of_nat (if n < 10 then 0x30 + n else 0x37 + n)"

definition percent :: "nat \<Rightarrow> jsstring" where
  "percent octet = [0x25, hex_digit (octet div 16), hex_digit (octet mod 16)]"

definition escape :: "nat \<Rightarrow> jsstring" where
  "escape cp = concat (map percent (utf8 cp))"

fun Encode :: "jsstring \<Rightarrow> error + jsstring" where
  "Encode [] = Inr []"
| "Encode (c # cs) =
     (if unescaped c then
        (case Encode cs of Inl e \<Rightarrow> Inl e | Inr r \<Rightarrow> Inr (c # r))
      else if \<not> is_lead c \<and> \<not> is_trail c then
        (case Encode cs of Inl e \<Rightarrow> Inl e | Inr r \<Rightarrow> Inr (escape (unat c) @ r))
      else if is_trail c then Inl URIError
      else
        (case cs of
           [] \<Rightarrow> Inl URIError
         | d # ds \<Rightarrow>
             if \<not> is_trail d then Inl URIError
             else (case Encode ds of
                     Inl e \<Rightarrow> Inl e
                   | Inr r \<Rightarrow> Inr (escape (pair_code_point c d) @ r))))"

definition encodeURIComponent :: "jsval \<Rightarrow> error + jsstring" where
  "encodeURIComponent v = Encode (ToString v)"

section \<open>generateQRData\<close>

text \<open>
  The switch on the type tag compares with \<open>===\<close>; the tag is a string at run time.
  The result is the returned value, or the exception raised: \<open>data.url.startsWith\<close>
  raises TypeError when \<open>data.url\<close> is not a string, and \<open>encodeURIComponent\<close> may
  raise URIError.
\<close>

definition generateQRData :: "jsstring \<Rightarrow> formdata \<Rightarrow> error + jsval" where
  "generateQRData type data =
     (if type = ascii ''url'' then
        (case getProp data ''url'' of
           JString url \<Rightarrow>
             Inr (JString
               (if \<not> startsWith url (ascii ''http://'') \<and> \<not> startsWith url (ascii ''https://'')
                then ascii ''https://'' @ url
                else url))
         | _ \<Rightarrow> Inl TypeError)
      else if type = ascii ''wifi'' then
        Inr (JString
          (ascii ''WIFI:T:'' @ ToString (getProp data ''security'')
           @ ascii '';S:'' @ ToString (getProp data ''ssid'')
           @ ascii '';P:'' @ ToString (or_empty (getProp data ''password''))
           @ ascii '';H:''
           @ (if ToBoolean (getProp data ''hidden'') then ascii ''true'' else ascii ''false'')
           @ ascii '';;''))
      else if type = ascii ''contact'' then
        Inr (JString
          (ascii ''BEGIN:VCARD'' @ [0x0A] @ ascii ''VERSION:3.0'' @ [0x0A]
           @ ascii ''FN:'' @ ToString (getProp data ''firstName'') @ ascii '' ''
           @ ToString (or_empty (getProp data ''lastName'')) @ [0x0A]
           @ ascii ''ORG:'' @ ToString (or_empty (getProp data ''organization'')) @ [0x0A]
           @ ascii ''TEL:'' @ ToString (or_empty (getProp data ''phone'')) @ [0x0A]
           @ ascii ''EMAIL:'' @ ToString (or_empty (getProp data ''email'')) @ [0x0A]
           @ ascii ''URL:'' @ ToString (or_empty (getProp data ''url'')) @ [0x0A]
           @ ascii ''END:VCARD''))
      else if type = ascii ''text'' then Inr (getProp data ''text'')
      else if type = ascii ''email'' then
        (case encodeURIComponent (or_empty (getProp data ''subject'')) of
           Inl e \<Rightarrow> Inl e
         | Inr subject \<Rightarrow>
             (case encodeURIComponent (or_empty (getProp data ''body'')) of
                Inl e \<Rightarrow> Inl e
              | Inr body \<Rightarrow>
                  Inr (JString
                    (ascii ''mailto:'' @ ToString (getProp data ''email'')
                     @ ascii ''?subject='' @ subject @ ascii ''&body='' @ body))))
      else if type = ascii ''sms'' then
        (if ToBoolean (getProp data ''message'') then
           (case encodeURIComponent (getProp data ''message'') of
              Inl e \<Rightarrow> Inl e
            | Inr message \<Rightarrow>
                Inr (JString
                  (ascii ''sms:'' @ ToString (getProp data ''phone'')
                   @ ascii ''?body='' @ message)))
         else Inr (JString (ascii ''sms:'' @ ToString (getProp data ''phone''))))
      else Inr (JString []))"

section \<open>The form schemas\<close>

text \<open>
  The zod schemas, as far as they constrain the shape of the form data: which properties
  are strings, which may be missing, which are non-empty, and the security enum. The
  pattern checks (\<open>.email()\<close>, \<open>.url()\<close>, the \<open>refine\<close> of \<open>urlSchema\<close>) only
  narrow the accepted strings further and are left out, so every form value that passes
  a schema satisfies the predicate of the same name here.
\<close>

fun is_string :: "jsval \<Rightarrow> bool" where
  "is_string (JString s) = True"
| "is_string v = False"

fun min1 :: "jsval \<Rightarrow> bool" where
  "min1 (JString s) = (s \<noteq> [])"
| "min1 v = False"

fun optional_string :: "jsval \<Rightarrow> bool" where
  "optional_string Undefined = True"
| "optional_string (JString s) = True"
| "optional_string (JBoolean b) = False"

fun optional_boolean :: "jsval \<Rightarrow> bool" where
  "optional_boolean Undefined = True"
| "optional_boolean (JBoolean b) = True"
| "optional_boolean (JString s) = False"

definition urlSchema :: "formdata \<Rightarrow> bool" where
  "urlSchema data = min1 (getProp data ''url'')"

definition wifiSchema :: "formdata \<Rightarrow> bool" where
  "wifiSchema data =
     (min1 (getProp data ''ssid'')
      \<and> optional_string (getProp data ''password'')
      \<and> getProp data ''security''
          \<in> {JString (ascii ''WPA''), JString (ascii ''WEP''), JString (ascii ''nopass'')}
      \<and> optional_boolean (getProp data ''hidden''))"

definition contactSchema :: "formdata \<Rightarrow> bool" where
  "contactSchema data =
     (min1 (getProp data ''firstName'')
      \<and> optional_string (getProp data ''lastName'')
      \<and> optional_string (getProp data ''phone'')
      \<and> optional_string (getProp data ''email'')
      \<and> optional_string (getProp data ''organization'')
      \<and> optional_string (getProp data ''url''))"

definition textSchema :: "formdata \<Rightarrow> bool" where
  "textSchema data = min1 (getProp data ''text'')"

definition emailSchema :: "formdata \<Rightarrow> bool" where
  "emailSchema data =
     (is_string (getProp data ''email'')
      \<and> optional_string (getProp data ''subject'')
      \<and> optional_string (getProp data ''body''))"

definition smsSchema :: "formdata \<Rightarrow> bool" where
  "smsSchema data =
     (min1 (getProp data ''phone'') \<and> optional_string (getProp data ''message''))"

text \<open>The schema that \<open>forms[type]\<close> validates with, for each of the six tabs.\<close>

definition validated :: "jsstring \<Rightarrow> formdata \<Rightarrow> bool" where
  "validated type data =
     (if type = ascii ''url'' then urlSchema data
      else if type = ascii ''wifi'' then wifiSchema data
      else if type = ascii ''contact'' then contactSchema data
      else if type = ascii ''text'' then textSchema data
      else if type = ascii ''email'' then emailSchema data
      else if type = ascii ''sms'' then smsSchema data
      else False)"

text \<open>The fields that \<open>generateQRData\<close> passes to \<open>encodeURIComponent\<close>.\<close>

definition percent_encoded :: "jsstring \<Rightarrow> string list" where
  "percent_encoded type =
     (if type = ascii ''email'' then [''subject'', ''body'']
      else if type = ascii ''sms'' then [''message'']
      else [])"

text \<open>
  The text of a field: the string supplied, or the empty string when the field is
  absent.
\<close>

fun text_of :: "jsval \<Rightarrow> jsstring" where
  "text_of (JString s) = s"
| "text_of v = []"

text \<open>
  A string is well formed when it has no unpaired surrogate: every leading surrogate is
  followed by a trailing one, and no trailing surrogate stands alone
  (\<open>String.prototype.isWellFormed\<close>).
\<close>

fun isWellFormed :: "jsstring \<Rightarrow> bool" where
  "isWellFormed [] = True"
| "isWellFormed (c # cs) =
     (if is_lead c then
        (case cs of [] \<Rightarrow> False | d # ds \<Rightarrow> is_trail d \<and> isWellFormed ds)
      else \<not> is_trail c \<and> isWellFormed cs)"

section \<open>handleGenerate\<close>

text \<open>
  The records of \<open>types/qr\<close>. Field names carry a prefix where the source's name is a
  constant of HOL or a variable of this theory. A \<open>number\<close> is copied, never computed
  with, on the path modelled here.
\<close>

datatype ecl = L | M | Q | H

record QROptions =
  opt_size :: real
  opt_errorCorrectionLevel :: ecl
  opt_foregroundColor :: jsstring
  opt_backgroundColor :: jsstring
  opt_margin :: real

record GeneratedQR =
  qr_id :: jsstring
  qr_type :: jsstring
  qr_data :: jsval
  qr_dataUrl :: jsstring
  qr_options :: QROptions

text \<open>The options the component starts with.\<close>

definition defaultOptions :: QROptions where
  "defaultOptions =
     \<lparr>opt_size = 256, opt_errorCorrectionLevel = M, opt_foregroundColor = ascii ''#000000'',
      opt_backgroundColor = ascii ''#ffffff'', opt_margin = 4\<rparr>"

text \<open>The component state that \<open>handleGenerate\<close> reads and writes.\<close>

record app_state =
  qrOptions :: QROptions
  generatedQRs :: "GeneratedQR list"
  currentQR :: jsstring

text \<open>
  A form of react-hook-form, as \<open>handleGenerate\<close> sees it: what \<open>trigger()\<close>
  resolves to and what \<open>getValues()\<close> returns.
\<close>

record form =
  trigger :: bool
  getValues :: formdata

text \<open>
  \<open>handleGenerate\<close> with its surroundings as parameters: the \<open>forms\<close> object (the
  list of its properties), what \<open>await generateQR(qrData)\<close> settles to (the QRCode
  library and the canvas decide that: a data URL, or an exception), and the string that
  \<open>Date.now().toString()\<close> gives. The result is the state after the returned promise
  settles; \<open>Inl\<close> is a rejected promise. \<open>forms[type]\<close> is \<open>undefined\<close> for a
  tag without a form, and \<open>form.trigger\<close> raises TypeError then. \<open>generateQRData\<close>
  is called before the \<open>try\<close>, so its exception rejects the promise; an exception of
  \<open>generateQR\<close> is caught and logged, and the state stays as it was. The state \<open>st\<close>
  is the one the two updates apply to (\<open>prev\<close> of the functional update); the options
  copied into the new entry are read from it as well.
\<close>

definition handleGenerate ::
  "(jsstring \<times> form) list \<Rightarrow> error + jsstring \<Rightarrow> jsstring
     \<Rightarrow> app_state \<Rightarrow> jsstring \<Rightarrow> error + app_state" where
  "handleGenerate forms generateQR now st type =
     (case map_of forms type of
        None \<Rightarrow> Inl TypeError
      | Some form \<Rightarrow>
          if \<not> trigger form then Inr st
          else
            (case generateQRData type (getValues form) of
               Inl e \<Rightarrow> Inl e
             | Inr qrData \<Rightarrow>
                 (case generateQR of
                    Inl e \<Rightarrow> Inr st
                  | Inr dataUrl \<Rightarrow>
                      let newQR = \<lparr>qr_id = now, qr_type = type, qr_data = qrData,
                                    qr_dataUrl = dataUrl, qr_options = qrOptions st\<rparr>
                      in Inr (st\<lparr>currentQR := dataUrl,
                                generatedQRs := newQR # take 9 (generatedQRs st)\<rparr>))))"

section \<open>Facts about strings\<close>

lemma ascii_eq_iff [simp]: "ascii a = ascii b \<longleftrightarrow> a = b"
proof -
  have u: "unat (word_of_nat (of_char c) :: 16 word) = of_char c" for c :: char
  proof -
    have "(of_char c :: nat) < 65536"
      using nat_of_char_less_256 [of c] by linarith
    then show ?thesis by (simp add: unat_of_nat)
  qed
  have "inj (\<lambda>c::char. (word_of_nat (of_char c) :: 16 word))"
  proof (rule injI)
    fix c d :: char
    assume "(word_of_nat (of_char c) :: 16 word) = word_of_nat (of_char d)"
    then have "(of_char c :: nat) = of_char d" using u by metis
    then show "c = d" by simp
  qed
  then show ?thesis unfolding ascii_def by (simp add: inj_map_eq_map)
qed

lemma ascii_append: "ascii (a @ b) = ascii a @ ascii b"
  by (simp add: ascii_def)

lemma ascii_Nil [simp]: "ascii [] = []"
  by (simp add: ascii_def)

lemma ascii_eq_Nil [simp]: "ascii s = [] \<longleftrightarrow> s = []"
  by (simp add: ascii_def)

lemma unescaped_not_surrogate: "unescaped c \<Longrightarrow> \<not> is_lead c \<and> \<not> is_trail c"
  unfolding unescaped_def is_lead_def is_trail_def
  by (auto simp: word_le_nat_alt)

lemma lead_not_trail: "is_lead c \<Longrightarrow> \<not> is_trail c"
  unfolding is_lead_def is_trail_def by (auto simp: word_le_nat_alt)

text \<open>\<open>Encode\<close> returns exactly on the well-formed strings.\<close>

lemma Encode_isWellFormed: "(\<exists>r. Encode s = Inr r) \<longleftrightarrow> isWellFormed s"
proof (induction s rule: Encode.induct)
  case 1
  then show ?case by simp
next
  case (2 c cs)
  then show ?case
    by (cases cs) (auto simp: unescaped_not_surrogate lead_not_trail split: sum.splits)
qed

lemma Encode_error: "Encode s = Inl e \<Longrightarrow> e = URIError"
proof (induction s rule: Encode.induct)
  case 1
  then show ?case by simp
next
  case (2 c cs)
  then show ?case
    by (cases cs) (auto split: sum.splits if_splits)
qed

section \<open>Facts about the fields of a validated form\<close>

lemma min1_ToString: "min1 v \<Longrightarrow> ToString v = text_of v"
  by (cases v) simp_all

lemma is_string_ToString: "is_string v \<Longrightarrow> ToString v = text_of v"
  by (cases v) simp_all

lemma optional_string_or_empty:
  "optional_string v \<Longrightarrow> ToString (or_empty v) = text_of v"
  by (cases v) (simp_all add: or_empty_def)

lemma optional_boolean_ToBoolean:
  "optional_boolean v \<Longrightarrow> ToBoolean v = (v = JBoolean True)"
  by (cases v) simp_all

lemma optional_string_ToBoolean:
  "optional_string v \<Longrightarrow> ToBoolean v = (text_of v \<noteq> [])"
  by (cases v) simp_all

lemma optional_string_ToString:
  "optional_string v \<Longrightarrow> ToBoolean v \<Longrightarrow> ToString v = text_of v"
  by (cases v) simp_all

text \<open>The definitions a concrete input is evaluated with.\<close>

lemmas js_eval =
  ascii_def getProp_def startsWith_def or_empty_def encodeURIComponent_def
  unescaped_def is_lead_def is_trail_def pair_code_point_def utf8_def hex_digit_def
  percent_def escape_def

lemmas schema_eval =
  urlSchema_def wifiSchema_def contactSchema_def textSchema_def emailSchema_def
  smsSchema_def

lemma wifi_security_min1: "wifiSchema data \<Longrightarrow> min1 (getProp data ''security'')"
  unfolding wifiSchema_def by (auto simp: ascii_def)

lemma isWellFormed_Encode: "isWellFormed s \<Longrightarrow> \<exists>r. Encode s = Inr r"
  by (simp add: Encode_isWellFormed)

text \<open>The output depends on the data through its properties only.\<close>

lemma generateQRData_cong:
  assumes "\<forall>k. getProp data k = getProp data' k"
  shows "generateQRData type data = generateQRData type data'"
proof -
  from assms have same: "getProp data = getProp data'"
    by (simp add: fun_eq_iff)
  show ?thesis
    unfolding generateQRData_def same by (rule refl)
qed

lemma validated_cases:
  assumes "validated type data"
  obtains (is_url) "type = ascii ''url''" "urlSchema data"
  | (is_wifi) "type = ascii ''wifi''" "wifiSchema data"
  | (is_contact) "type = ascii ''contact''" "contactSchema data"
  | (is_text) "type = ascii ''text''" "textSchema data"
  | (is_email) "type = ascii ''email''" "emailSchema data"
  | (is_sms) "type = ascii ''sms''" "smsSchema data"
  using assms unfolding validated_def by (auto split: if_splits)

lemma min1_JString: "min1 v \<Longrightarrow> \<exists>s. v = JString s"
  by (cases v) simp_all

text \<open>A validated form is encoded to a string when its percent-encoded fields are well formed.\<close>

lemma validated_returns:
  assumes "validated type data"
    and "\<forall>k \<in> set (percent_encoded type). isWellFormed (text_of (getProp data k))"
  shows "\<exists>s. generateQRData type data = Inr (JString s)"
  using assms(1)
proof (cases rule: validated_cases)
  case is_url
  then show ?thesis
    using min1_JString [of "getProp data ''url''"]
    by (auto simp: generateQRData_def urlSchema_def)
next
  case is_wifi
  then show ?thesis by (simp add: generateQRData_def)
next
  case is_contact
  then show ?thesis by (simp add: generateQRData_def)
next
  case is_text
  then show ?thesis
    using min1_JString [of "getProp data ''text''"]
    by (auto simp: generateQRData_def textSchema_def)
next
  case is_email
  with assms(2) have "isWellFormed (text_of (getProp data ''subject''))"
    and "isWellFormed (text_of (getProp data ''body''))"
    by (simp_all add: percent_encoded_def)
  then obtain s b where "Encode (text_of (getProp data ''subject'')) = Inr s"
    and "Encode (text_of (getProp data ''body'')) = Inr b"
    using isWellFormed_Encode by blast
  with is_email show ?thesis
    unfolding emailSchema_def
    by (simp add: generateQRData_def encodeURIComponent_def optional_string_or_empty)
next
  case is_sms
  with assms(2) have "isWellFormed (text_of (getProp data ''message''))"
    by (simp add: percent_encoded_def)
  then obtain m where "Encode (text_of (getProp data ''message'')) = Inr m"
    using isWellFormed_Encode by blast
  with is_sms show ?thesis
    unfolding smsSchema_def
    by (simp add: generateQRData_def encodeURIComponent_def optional_string_ToString)
qed

text \<open>Otherwise the encoder raises URIError.\<close>

lemma not_isWellFormed_Encode: "\<not> isWellFormed s \<Longrightarrow> Encode s = Inl URIError"
proof -
  assume "\<not> isWellFormed s"
  then have "\<nexists>r. Encode s = Inr r" by (simp add: Encode_isWellFormed)
  then obtain e where "Encode s = Inl e" by (cases "Encode s") auto
  then show ?thesis using Encode_error by blast
qed

lemma validated_raises:
  assumes "validated type data"
    and "\<not> (\<forall>k \<in> set (percent_encoded type). isWellFormed (text_of (getProp data k)))"
  shows "generateQRData type data = Inl URIError"
  using assms(1)
proof (cases rule: validated_cases)
  case is_email
  show ?thesis
  proof (cases "isWellFormed (text_of (getProp data ''subject''))")
    case False
    then have "Encode (text_of (getProp data ''subject'')) = Inl URIError"
      by (rule not_isWellFormed_Encode)
    with is_email show ?thesis
      unfolding emailSchema_def
      by (simp add: generateQRData_def encodeURIComponent_def optional_string_or_empty)
  next
    case True
    with assms(2) is_email have "\<not> isWellFormed (text_of (getProp data ''body''))"
      by (simp add: percent_encoded_def)
    then have "Encode (text_of (getProp data ''body'')) = Inl URIError"
      by (rule not_isWellFormed_Encode)
    moreover from True obtain s where "Encode (text_of (getProp data ''subject'')) = Inr s"
      using isWellFormed_Encode by blast
    ultimately show ?thesis
      using is_email unfolding emailSchema_def
      by (simp add: generateQRData_def encodeURIComponent_def optional_string_or_empty)
  qed
next
  case is_sms
  with assms(2) have nw: "\<not> isWellFormed (text_of (getProp data ''message''))"
    by (simp add: percent_encoded_def)
  then have ne: "text_of (getProp data ''message'') \<noteq> []" by auto
  from nw have "Encode (text_of (getProp data ''message'')) = Inl URIError"
    by (rule not_isWellFormed_Encode)
  with is_sms ne show ?thesis
    unfolding smsSchema_def
    by (simp add: generateQRData_def encodeURIComponent_def optional_string_ToString
        optional_string_ToBoolean)
qed (use assms(2) in \<open>simp_all add: percent_encoded_def\<close>)

text \<open>The optional text fields of Wifi, Contact and Email keep their place when absent.\<close>

lemma wifi_absent_password:
  assumes "wifiSchema data" and "getProp data ''password'' = Undefined"
  shows "generateQRData (ascii ''wifi'') data =
           Inr (JString
             (ascii ''WIFI:T:'' @ text_of (getProp data ''security'')
              @ ascii '';S:'' @ text_of (getProp data ''ssid'')
              @ ascii '';P:;H:''
              @ (if getProp data ''hidden'' = JBoolean True then ascii ''true'' else ascii ''false'')
              @ ascii '';;''))"
  using assms wifi_security_min1 [OF assms(1)] unfolding wifiSchema_def
  by (simp add: generateQRData_def min1_ToString or_empty_def
      optional_boolean_ToBoolean ascii_def)

lemma contact_absent_fields:
  assumes "contactSchema data"
    and "getProp data ''lastName'' = Undefined"
    and "getProp data ''organization'' = Undefined"
    and "getProp data ''phone'' = Undefined"
    and "getProp data ''email'' = Undefined"
    and "getProp data ''url'' = Undefined"
  shows "generateQRData (ascii ''contact'') data =
           Inr (JString
             (ascii ''BEGIN:VCARD'' @ [0x0A] @ ascii ''VERSION:3.0'' @ [0x0A]
              @ ascii ''FN:'' @ text_of (getProp data ''firstName'') @ ascii '' '' @ [0x0A]
              @ ascii ''ORG:'' @ [0x0A] @ ascii ''TEL:'' @ [0x0A] @ ascii ''EMAIL:'' @ [0x0A]
              @ ascii ''URL:'' @ [0x0A] @ ascii ''END:VCARD''))"
  using assms unfolding contactSchema_def
  by (simp add: generateQRData_def min1_ToString or_empty_def)

lemma email_absent_fields:
  assumes "emailSchema data"
    and "getProp data ''subject'' = Undefined"
    and "getProp data ''body'' = Undefined"
  shows "generateQRData (ascii ''email'') data =
           Inr (JString (ascii ''mailto:'' @ text_of (getProp data ''email'')
                         @ ascii ''?subject=&body=''))"
  using assms unfolding emailSchema_def
  by (simp add: generateQRData_def is_string_ToString or_empty_def encodeURIComponent_def
      ascii_def)

text \<open>The Sms variant.\<close>

lemma sms_result:
  assumes "smsSchema data"
    and "isWellFormed (text_of (getProp data ''message''))"
  shows "\<exists>message.
           Encode (text_of (getProp data ''message'')) = Inr message \<and>
           generateQRData (ascii ''sms'') data =
             Inr (JString
               (ascii ''sms:'' @ text_of (getProp data ''phone'')
                @ (if text_of (getProp data ''message'') = [] then []
                   else ascii ''?body='' @ message)))"
proof -
  obtain m where m: "Encode (text_of (getProp data ''message'')) = Inr m"
    using assms(2) isWellFormed_Encode by blast
  from assms(1) m show ?thesis
    unfolding smsSchema_def
    by (simp add: generateQRData_def encodeURIComponent_def min1_ToString
        optional_string_ToBoolean optional_string_ToString)
qed

section \<open>The encoder, variant by variant\<close>

text \<open>
  C1. For every Url input, the encoder returns the url unchanged when it starts with
  \<open>http://\<close> or \<open>https://\<close>, and with \<open>https://\<close> prepended otherwise; nothing
  else is done to the string.
\<close>

theorem url_prefix_rule:
  assumes "urlSchema data"
  shows "\<exists>url. getProp data ''url'' = JString url \<and>
           generateQRData (ascii ''url'') data =
             Inr (JString (if startsWith url (ascii ''http://'') \<or> startsWith url (ascii ''https://'')
                           then url else ascii ''https://'' @ url))"
proof -
  from assms obtain url where u: "getProp data ''url'' = JString url"
    unfolding urlSchema_def by (cases "getProp data ''url''") simp_all
  then show ?thesis by (simp add: generateQRData_def)
qed

theorem url_prefix_rule_witness:
  "urlSchema [(''url'', JString (ascii ''example.com''))] \<and>
   generateQRData (ascii ''url'') [(''url'', JString (ascii ''example.com''))] =
     Inr (JString (ascii ''https://example.com''))"
proof -
  have h: "urlSchema [(''url'', JString (ascii ''example.com''))]"
    by (simp add: urlSchema_def getProp_def)
  show ?thesis
    using h url_prefix_rule [OF h] by (simp add: js_eval)
qed

text \<open>The spec's second example, and the comparison being case-sensitive.\<close>

lemma url_http_unchanged:
  "generateQRData (ascii ''url'') [(''url'', JString (ascii ''http://example.com''))] =
     Inr (JString (ascii ''http://example.com''))"
  by (simp add: generateQRData_def js_eval)

lemma url_prefix_case_sensitive:
  "generateQRData (ascii ''url'') [(''url'', JString (ascii ''HTTP://Example.COM''))] =
     Inr (JString (ascii ''https://HTTP://Example.COM''))"
  by (simp add: generateQRData_def js_eval)

text \<open>
  C2. For every Wifi input, the encoder returns
  \<open>WIFI:T:<security>;S:<ssid>;P:<password>;H:<hidden>;;\<close>: the security value and
  the ssid verbatim, the password or the empty string when it is absent, \<open>true\<close> when
  the hidden flag is true and \<open>false\<close> otherwise, and the closing \<open>;;\<close>.
\<close>

theorem wifi_format:
  assumes "wifiSchema data"
  shows "generateQRData (ascii ''wifi'') data =
           Inr (JString
             (ascii ''WIFI:T:'' @ text_of (getProp data ''security'')
              @ ascii '';S:'' @ text_of (getProp data ''ssid'')
              @ ascii '';P:'' @ text_of (getProp data ''password'')
              @ ascii '';H:''
              @ (if getProp data ''hidden'' = JBoolean True then ascii ''true'' else ascii ''false'')
              @ ascii '';;''))"
  using assms wifi_security_min1 [OF assms] unfolding wifiSchema_def
  by (simp add: generateQRData_def min1_ToString optional_string_or_empty
      optional_boolean_ToBoolean)

theorem wifi_format_witness:
  "wifiSchema [(''ssid'', JString (ascii ''Home'')), (''password'', JString (ascii ''secret'')),
               (''security'', JString (ascii ''WPA'')), (''hidden'', JBoolean True)] \<and>
   generateQRData (ascii ''wifi'')
     [(''ssid'', JString (ascii ''Home'')), (''password'', JString (ascii ''secret'')),
      (''security'', JString (ascii ''WPA'')), (''hidden'', JBoolean True)] =
     Inr (JString (ascii ''WIFI:T:WPA;S:Home;P:secret;H:true;;''))"
proof -
  have h: "wifiSchema [(''ssid'', JString (ascii ''Home'')), (''password'', JString (ascii ''secret'')),
               (''security'', JString (ascii ''WPA'')), (''hidden'', JBoolean True)]"
    by (simp add: wifiSchema_def getProp_def)
  show ?thesis
    using h wifi_format [OF h] by (simp add: js_eval)
qed

text \<open>The spec's example with the password absent.\<close>

lemma wifi_guest_example:
  "generateQRData (ascii ''wifi'')
     [(''ssid'', JString (ascii ''Guest'')), (''security'', JString (ascii ''nopass'')),
      (''hidden'', JBoolean False)] =
     Inr (JString (ascii ''WIFI:T:nopass;S:Guest;P:;H:false;;''))"
  by (simp add: generateQRData_def js_eval)

text \<open>
  C3. For every Contact input, the encoder returns the vCard 3.0 lines
  \<open>BEGIN:VCARD\<close>, \<open>VERSION:3.0\<close>, \<open>FN:<firstName> <lastName>\<close>, \<open>ORG:\<close>,
  \<open>TEL:\<close>, \<open>EMAIL:\<close>, \<open>URL:\<close>, \<open>END:VCARD\<close> separated by line feeds; an absent
  optional field gives a line with an empty value, and the space after the first name
  is always there.
\<close>

theorem contact_format:
  assumes "contactSchema data"
  shows "generateQRData (ascii ''contact'') data =
           Inr (JString
             (ascii ''BEGIN:VCARD'' @ [0x0A] @ ascii ''VERSION:3.0'' @ [0x0A]
              @ ascii ''FN:'' @ text_of (getProp data ''firstName'') @ ascii '' ''
              @ text_of (getProp data ''lastName'') @ [0x0A]
              @ ascii ''ORG:'' @ text_of (getProp data ''organization'') @ [0x0A]
              @ ascii ''TEL:'' @ text_of (getProp data ''phone'') @ [0x0A]
              @ ascii ''EMAIL:'' @ text_of (getProp data ''email'') @ [0x0A]
              @ ascii ''URL:'' @ text_of (getProp data ''url'') @ [0x0A]
              @ ascii ''END:VCARD''))"
  using assms unfolding contactSchema_def
  by (simp add: generateQRData_def min1_ToString optional_string_or_empty)

theorem contact_format_witness:
  "contactSchema [(''firstName'', JString (ascii ''John'')), (''lastName'', JString (ascii ''Doe''))] \<and>
   generateQRData (ascii ''contact'')
     [(''firstName'', JString (ascii ''John'')), (''lastName'', JString (ascii ''Doe''))] =
     Inr (JString
       (ascii ''BEGIN:VCARD'' @ [0x0A] @ ascii ''VERSION:3.0'' @ [0x0A]
        @ ascii ''FN:John Doe'' @ [0x0A] @ ascii ''ORG:'' @ [0x0A] @ ascii ''TEL:'' @ [0x0A]
        @ ascii ''EMAIL:'' @ [0x0A] @ ascii ''URL:'' @ [0x0A] @ ascii ''END:VCARD''))"
proof -
  have h: "contactSchema [(''firstName'', JString (ascii ''John'')), (''lastName'', JString (ascii ''Doe''))]"
    by (simp add: contactSchema_def getProp_def)
  show ?thesis
    using h contact_format [OF h] by (simp add: js_eval)
qed

text \<open>An empty last name leaves the space of the FN line in place.\<close>

lemma contact_empty_last_name:
  "generateQRData (ascii ''contact'') [(''firstName'', JString (ascii ''Cher'')), (''lastName'', JString [])] =
     Inr (JString
       (ascii ''BEGIN:VCARD'' @ [0x0A] @ ascii ''VERSION:3.0'' @ [0x0A]
        @ ascii ''FN:Cher '' @ [0x0A] @ ascii ''ORG:'' @ [0x0A] @ ascii ''TEL:'' @ [0x0A]
        @ ascii ''EMAIL:'' @ [0x0A] @ ascii ''URL:'' @ [0x0A] @ ascii ''END:VCARD''))"
  by (simp add: generateQRData_def js_eval)

text \<open>
  C4, as amended. For every Email input whose subject and body have no unpaired
  surrogate, both are percent-encoded (absent ones as the empty string) and the encoder
  returns \<open>mailto:<email>?subject=<encoded subject>&body=<encoded body>\<close>, with both
  query parameters always present and the address left as it is.
\<close>

theorem email_format:
  assumes "emailSchema data"
    and "isWellFormed (text_of (getProp data ''subject''))"
    and "isWellFormed (text_of (getProp data ''body''))"
  shows "\<exists>subject body.
           Encode (text_of (getProp data ''subject'')) = Inr subject \<and>
           Encode (text_of (getProp data ''body'')) = Inr body \<and>
           generateQRData (ascii ''email'') data =
             Inr (JString
               (ascii ''mailto:'' @ text_of (getProp data ''email'')
                @ ascii ''?subject='' @ subject @ ascii ''&body='' @ body))"
proof -
  obtain s where s: "Encode (text_of (getProp data ''subject'')) = Inr s"
    using assms(2) isWellFormed_Encode by blast
  obtain b where b: "Encode (text_of (getProp data ''body'')) = Inr b"
    using assms(3) isWellFormed_Encode by blast
  from assms(1) s b show ?thesis
    unfolding emailSchema_def
    by (simp add: generateQRData_def encodeURIComponent_def is_string_ToString
        optional_string_or_empty)
qed

theorem email_format_witness:
  "emailSchema [(''email'', JString (ascii ''a@b.com'')), (''subject'', JString (ascii ''Hi there'')),
                (''body'', JString [])] \<and>
   isWellFormed (ascii ''Hi there'') \<and> isWellFormed [] \<and>
   generateQRData (ascii ''email'')
     [(''email'', JString (ascii ''a@b.com'')), (''subject'', JString (ascii ''Hi there'')),
      (''body'', JString [])] =
     Inr (JString (ascii ''mailto:a@b.com?subject=Hi%20there&body=''))"
proof -
  have h: "emailSchema [(''email'', JString (ascii ''a@b.com'')), (''subject'', JString (ascii ''Hi there'')),
                (''body'', JString [])]"
    by (simp add: emailSchema_def getProp_def)
  have w: "isWellFormed (ascii ''Hi there'')" "isWellFormed []"
    by (simp_all add: js_eval)
  show ?thesis
    using h w email_format [of "[(''email'', JString (ascii ''a@b.com'')), (''subject'', JString (ascii ''Hi there'')),
                (''body'', JString [])]"]
    by (simp add: js_eval)
qed

text \<open>
  C4 as stated fails: a subject that passes \<open>emailSchema\<close> and holds an unpaired
  surrogate makes \<open>encodeURIComponent\<close> raise URIError, so the encoder returns no
  string.
\<close>

theorem email_unpaired_surrogate_counterexample:
  "emailSchema [(''email'', JString (ascii ''a@b.com'')), (''subject'', JString [0xD800])] \<and>
   generateQRData (ascii ''email'')
     [(''email'', JString (ascii ''a@b.com'')), (''subject'', JString [0xD800])] = Inl URIError"
  by (simp add: generateQRData_def emailSchema_def js_eval)

text \<open>
  C5, as amended. For every Sms input whose message has no unpaired surrogate, the
  encoder returns \<open>sms:<phone>?body=<encoded message>\<close> when the message is non-empty
  and exactly \<open>sms:<phone>\<close> when it is empty or absent. The other variants with
  optional text fields keep the field's place when it is absent: Wifi emits \<open>P:\<close>,
  Contact its five lines with empty values, Email \<open>?subject=&body=\<close>.
\<close>

theorem sms_format:
  "(smsSchema sms \<and> isWellFormed (text_of (getProp sms ''message'')) \<longrightarrow>
      (\<exists>message.
         Encode (text_of (getProp sms ''message'')) = Inr message \<and>
         generateQRData (ascii ''sms'') sms =
           Inr (JString
             (ascii ''sms:'' @ text_of (getProp sms ''phone'')
              @ (if text_of (getProp sms ''message'') = [] then []
                 else ascii ''?body='' @ message))))) \<and>
   (wifiSchema wifi \<and> getProp wifi ''password'' = Undefined \<longrightarrow>
      generateQRData (ascii ''wifi'') wifi =
        Inr (JString
          (ascii ''WIFI:T:'' @ text_of (getProp wifi ''security'')
           @ ascii '';S:'' @ text_of (getProp wifi ''ssid'')
           @ ascii '';P:;H:''
           @ (if getProp wifi ''hidden'' = JBoolean True then ascii ''true'' else ascii ''false'')
           @ ascii '';;''))) \<and>
   (contactSchema contact \<and> getProp contact ''lastName'' = Undefined \<and>
    getProp contact ''organization'' = Undefined \<and> getProp contact ''phone'' = Undefined \<and>
    getProp contact ''email'' = Undefined \<and> getProp contact ''url'' = Undefined \<longrightarrow>
      generateQRData (ascii ''contact'') contact =
        Inr (JString
          (ascii ''BEGIN:VCARD'' @ [0x0A] @ ascii ''VERSION:3.0'' @ [0x0A]
           @ ascii ''FN:'' @ text_of (getProp contact ''firstName'') @ ascii '' '' @ [0x0A]
           @ ascii ''ORG:'' @ [0x0A] @ ascii ''TEL:'' @ [0x0A] @ ascii ''EMAIL:'' @ [0x0A]
           @ ascii ''URL:'' @ [0x0A] @ ascii ''END:VCARD''))) \<and>
   (emailSchema email \<and> getProp email ''subject'' = Undefined \<and>
    getProp email ''body'' = Undefined \<longrightarrow>
      generateQRData (ascii ''email'') email =
        Inr (JString (ascii ''mailto:'' @ text_of (getProp email ''email'')
                      @ ascii ''?subject=&body='')))"
  using sms_result [of sms] wifi_absent_password [of wifi]
    contact_absent_fields [of contact] email_absent_fields [of email]
  by blast

theorem sms_format_witness:
  "smsSchema [(''phone'', JString (ascii ''+15551234567'')), (''message'', JString (ascii ''On my way!''))] \<and>
   isWellFormed (ascii ''On my way!'') \<and>
   generateQRData (ascii ''sms'')
     [(''phone'', JString (ascii ''+15551234567'')), (''message'', JString (ascii ''On my way!''))] =
     Inr (JString (ascii ''sms:+15551234567?body=On%20my%20way!'')) \<and>
   wifiSchema [(''ssid'', JString (ascii ''Guest'')), (''security'', JString (ascii ''nopass''))] \<and>
   generateQRData (ascii ''wifi'')
     [(''ssid'', JString (ascii ''Guest'')), (''security'', JString (ascii ''nopass''))] =
     Inr (JString (ascii ''WIFI:T:nopass;S:Guest;P:;H:false;;'')) \<and>
   contactSchema [(''firstName'', JString (ascii ''Ada''))] \<and>
   generateQRData (ascii ''contact'') [(''firstName'', JString (ascii ''Ada''))] =
     Inr (JString
       (ascii ''BEGIN:VCARD'' @ [0x0A] @ ascii ''VERSION:3.0'' @ [0x0A]
        @ ascii ''FN:Ada '' @ [0x0A] @ ascii ''ORG:'' @ [0x0A] @ ascii ''TEL:'' @ [0x0A]
        @ ascii ''EMAIL:'' @ [0x0A] @ ascii ''URL:'' @ [0x0A] @ ascii ''END:VCARD'')) \<and>
   emailSchema [(''email'', JString (ascii ''a@b.com''))] \<and>
   generateQRData (ascii ''email'') [(''email'', JString (ascii ''a@b.com''))] =
     Inr (JString (ascii ''mailto:a@b.com?subject=&body=''))"
proof -
  have h: "smsSchema [(''phone'', JString (ascii ''+15551234567'')), (''message'', JString (ascii ''On my way!''))]"
    "wifiSchema [(''ssid'', JString (ascii ''Guest'')), (''security'', JString (ascii ''nopass''))]"
    "contactSchema [(''firstName'', JString (ascii ''Ada''))]"
    "emailSchema [(''email'', JString (ascii ''a@b.com''))]"
    by (simp_all add: schema_eval getProp_def)
  have w: "isWellFormed (ascii ''On my way!'')"
    by (simp add: js_eval)
  show ?thesis
    using h w
      sms_format [of "[(''phone'', JString (ascii ''+15551234567'')), (''message'', JString (ascii ''On my way!''))]"
        "[(''ssid'', JString (ascii ''Guest'')), (''security'', JString (ascii ''nopass''))]"
        "[(''firstName'', JString (ascii ''Ada''))]"
        "[(''email'', JString (ascii ''a@b.com''))]"]
    by (simp add: js_eval)
qed

text \<open>The spec's example with an empty message.\<close>

lemma sms_empty_message:
  "generateQRData (ascii ''sms'')
     [(''phone'', JString (ascii ''+15551234567'')), (''message'', JString [])] =
     Inr (JString (ascii ''sms:+15551234567''))"
  by (simp add: generateQRData_def js_eval)

text \<open>
  C5 as stated fails: a non-empty message that passes \<open>smsSchema\<close> and holds an
  unpaired surrogate makes \<open>encodeURIComponent\<close> raise URIError, so the encoder returns
  no string.
\<close>

theorem sms_unpaired_surrogate_counterexample:
  "smsSchema [(''phone'', JString (ascii ''+15551234567'')), (''message'', JString [0xDC00])] \<and>
   generateQRData (ascii ''sms'')
     [(''phone'', JString (ascii ''+15551234567'')), (''message'', JString [0xDC00])] = Inl URIError"
  by (simp add: generateQRData_def smsSchema_def js_eval)

text \<open>
  C6. For every Text input, the encoder returns the text verbatim, and encoding the
  output again as a Text input gives the same string.
\<close>

theorem text_identity:
  assumes "textSchema data"
  shows "\<exists>text. getProp data ''text'' = JString text \<and>
           generateQRData (ascii ''text'') data = Inr (JString text) \<and>
           generateQRData (ascii ''text'') [(''text'', JString text)] = Inr (JString text)"
proof -
  from assms obtain t where "getProp data ''text'' = JString t"
    unfolding textSchema_def by (cases "getProp data ''text''") simp_all
  then show ?thesis by (simp add: generateQRData_def getProp_def)
qed

theorem text_identity_witness:
  "textSchema [(''text'', JString (ascii ''Hello, world''))] \<and>
   generateQRData (ascii ''text'') [(''text'', JString (ascii ''Hello, world''))] =
     Inr (JString (ascii ''Hello, world''))"
proof -
  have h: "textSchema [(''text'', JString (ascii ''Hello, world''))]"
    by (simp add: textSchema_def getProp_def)
  show ?thesis
    using h text_identity [OF h] by (simp add: getProp_def)
qed

section \<open>The encoder as a whole\<close>

text \<open>
  C7, as amended. The encoder is deterministic: the same type tag and the same field
  values give the same result. It is total on every validated input whose
  percent-encoded fields (subject and body of Email, message of Sms) have no unpaired
  surrogate.
\<close>

theorem encode_deterministic_total:
  "(type = type' \<and> (\<forall>k. getProp data k = getProp data' k) \<longrightarrow>
      generateQRData type data = generateQRData type' data') \<and>
   (validated type data \<and>
    (\<forall>k \<in> set (percent_encoded type). isWellFormed (text_of (getProp data k))) \<longrightarrow>
      (\<exists>s. generateQRData type data = Inr (JString s)))"
  using generateQRData_cong [of data data' type] validated_returns [of type data]
  by blast

theorem encode_deterministic_total_witness:
  "(\<forall>k. getProp [(''email'', JString (ascii ''a@b.com'')), (''subject'', JString (ascii ''Hi there''))] k =
        getProp [(''subject'', JString (ascii ''Hi there'')), (''email'', JString (ascii ''a@b.com''))] k) \<and>
   validated (ascii ''email'')
     [(''email'', JString (ascii ''a@b.com'')), (''subject'', JString (ascii ''Hi there''))] \<and>
   isWellFormed (ascii ''Hi there'') \<and>
   generateQRData (ascii ''email'')
     [(''email'', JString (ascii ''a@b.com'')), (''subject'', JString (ascii ''Hi there''))] =
   generateQRData (ascii ''email'')
     [(''subject'', JString (ascii ''Hi there'')), (''email'', JString (ascii ''a@b.com''))] \<and>
   (\<exists>s. generateQRData (ascii ''email'')
          [(''email'', JString (ascii ''a@b.com'')), (''subject'', JString (ascii ''Hi there''))] =
        Inr (JString s))"
proof -
  have a: "\<forall>k. getProp [(''email'', JString (ascii ''a@b.com'')), (''subject'', JString (ascii ''Hi there''))] k =
        getProp [(''subject'', JString (ascii ''Hi there'')), (''email'', JString (ascii ''a@b.com''))] k"
    by (auto simp: getProp_def)
  have v: "validated (ascii ''email'')
     [(''email'', JString (ascii ''a@b.com'')), (''subject'', JString (ascii ''Hi there''))]"
    by (simp add: validated_def emailSchema_def getProp_def)
  have w: "isWellFormed (ascii ''Hi there'')"
    by (simp add: js_eval)
  have e: "\<forall>k \<in> set (percent_encoded (ascii ''email'')).
             isWellFormed (text_of (getProp
               [(''email'', JString (ascii ''a@b.com'')), (''subject'', JString (ascii ''Hi there''))] k))"
    using w by (simp add: percent_encoded_def getProp_def)
  show ?thesis
    using a v w e
      encode_deterministic_total [of "ascii ''email''" "ascii ''email''"
        "[(''email'', JString (ascii ''a@b.com'')), (''subject'', JString (ascii ''Hi there''))]"
        "[(''subject'', JString (ascii ''Hi there'')), (''email'', JString (ascii ''a@b.com''))]"]
    by blast
qed

text \<open>
  C7 as stated fails: a validated Email input whose body ends in a leading surrogate
  makes the encoder raise URIError.
\<close>

theorem encode_not_total_counterexample:
  "validated (ascii ''email'')
     [(''email'', JString (ascii ''a@b.com'')), (''subject'', JString (ascii ''Hi'')),
      (''body'', JString [0x61, 0xD83D])] \<and>
   generateQRData (ascii ''email'')
     [(''email'', JString (ascii ''a@b.com'')), (''subject'', JString (ascii ''Hi'')),
      (''body'', JString [0x61, 0xD83D])] = Inl URIError"
  by (simp add: generateQRData_def validated_def emailSchema_def js_eval)

text \<open>
  C8. For every Wifi input whose hidden flag is absent or false, the encoder emits
  \<open>H:false\<close>.
\<close>

theorem wifi_hidden_absent:
  assumes "wifiSchema data"
    and "getProp data ''hidden'' = Undefined \<or> getProp data ''hidden'' = JBoolean False"
  shows "generateQRData (ascii ''wifi'') data =
           Inr (JString
             (ascii ''WIFI:T:'' @ text_of (getProp data ''security'')
              @ ascii '';S:'' @ text_of (getProp data ''ssid'')
              @ ascii '';P:'' @ text_of (getProp data ''password'')
              @ ascii '';H:false;;''))"
  using assms wifi_security_min1 [OF assms(1)] unfolding wifiSchema_def
  by (auto simp: generateQRData_def min1_ToString optional_string_or_empty ascii_def)

theorem wifi_hidden_absent_witness:
  "wifiSchema [(''ssid'', JString (ascii ''Cafe'')), (''password'', JString (ascii ''latte'')),
               (''security'', JString (ascii ''WEP''))] \<and>
   getProp [(''ssid'', JString (ascii ''Cafe'')), (''password'', JString (ascii ''latte'')),
            (''security'', JString (ascii ''WEP''))] ''hidden'' = Undefined \<and>
   generateQRData (ascii ''wifi'')
     [(''ssid'', JString (ascii ''Cafe'')), (''password'', JString (ascii ''latte'')),
      (''security'', JString (ascii ''WEP''))] =
     Inr (JString (ascii ''WIFI:T:WEP;S:Cafe;P:latte;H:false;;''))"
proof -
  have h: "wifiSchema [(''ssid'', JString (ascii ''Cafe'')), (''password'', JString (ascii ''latte'')),
               (''security'', JString (ascii ''WEP''))]"
    by (simp add: wifiSchema_def getProp_def)
  have a: "getProp [(''ssid'', JString (ascii ''Cafe'')), (''password'', JString (ascii ''latte'')),
            (''security'', JString (ascii ''WEP''))] ''hidden'' = Undefined"
    by (simp add: getProp_def)
  show ?thesis
    using h a wifi_hidden_absent [OF h disjI1 [OF a]] by (simp add: js_eval)
qed

text \<open>
  C9. For every type tag outside url, wifi, contact, text, email and sms, the encoder
  returns the empty string.
\<close>

theorem unknown_type_empty:
  assumes "type \<notin> {ascii ''url'', ascii ''wifi'', ascii ''contact'', ascii ''text'',
                      ascii ''email'', ascii ''sms''}"
  shows "generateQRData type data = Inr (JString [])"
  using assms by (simp add: generateQRData_def)

theorem unknown_type_empty_witness:
  "ascii ''phone'' \<notin> {ascii ''url'', ascii ''wifi'', ascii ''contact'', ascii ''text'',
                        ascii ''email'', ascii ''sms''} \<and>
   generateQRData (ascii ''phone'') [(''phone'', JString (ascii ''+15551234567''))] =
     Inr (JString [])"
proof -
  have h: "ascii ''phone'' \<notin> {ascii ''url'', ascii ''wifi'', ascii ''contact'', ascii ''text'',
                        ascii ''email'', ascii ''sms''}"
    by simp
  show ?thesis
    using h unknown_type_empty [OF h] by simp
qed

section \<open>The history\<close>

text \<open>
  C10. A generation step keeps a history of at most 10 entries at most 10 long; after a
  successful one the history is the new entry followed by the first 9 previous entries,
  so the new entry is first and the length is at most 10.
\<close>

theorem history_bounded:
  "(length (generatedQRs st) \<le> 10 \<and> handleGenerate forms generateQR now st type = Inr st' \<longrightarrow>
      length (generatedQRs st') \<le> 10) \<and>
   (map_of forms type = Some form \<and> trigger form \<and>
    generateQRData type (getValues form) = Inr qrData \<longrightarrow>
      (\<exists>st''. handleGenerate forms (Inr dataUrl) now st type = Inr st'' \<and>
         generatedQRs st'' =
           \<lparr>qr_id = now, qr_type = type, qr_data = qrData, qr_dataUrl = dataUrl,
            qr_options = qrOptions st\<rparr> # take 9 (generatedQRs st) \<and>
         hd (generatedQRs st'') =
           \<lparr>qr_id = now, qr_type = type, qr_data = qrData, qr_dataUrl = dataUrl,
            qr_options = qrOptions st\<rparr> \<and>
         length (generatedQRs st'') \<le> 10))"
  by (auto simp: handleGenerate_def Let_def split: option.splits sum.splits if_splits)

theorem history_bounded_witness:
  "length (generatedQRs
     \<lparr>qrOptions = defaultOptions,
      generatedQRs = replicate 10
        \<lparr>qr_id = ascii ''1'', qr_type = ascii ''url'', qr_data = JString (ascii ''https://a.b''),
         qr_dataUrl = ascii ''data:old'', qr_options = defaultOptions\<rparr>,
      currentQR = ascii ''data:old''\<rparr>) \<le> 10 \<and>
   map_of [(ascii ''text'', \<lparr>trigger = True, getValues = [(''text'', JString (ascii ''hi''))]\<rparr>)]
     (ascii ''text'') =
     Some \<lparr>trigger = True, getValues = [(''text'', JString (ascii ''hi''))]\<rparr> \<and>
   generateQRData (ascii ''text'') [(''text'', JString (ascii ''hi''))] = Inr (JString (ascii ''hi'')) \<and>
   (\<exists>st'. handleGenerate
       [(ascii ''text'', \<lparr>trigger = True, getValues = [(''text'', JString (ascii ''hi''))]\<rparr>)]
       (Inr (ascii ''data:new'')) (ascii ''2'')
       \<lparr>qrOptions = defaultOptions,
        generatedQRs = replicate 10
          \<lparr>qr_id = ascii ''1'', qr_type = ascii ''url'', qr_data = JString (ascii ''https://a.b''),
           qr_dataUrl = ascii ''data:old'', qr_options = defaultOptions\<rparr>,
        currentQR = ascii ''data:old''\<rparr>
       (ascii ''text'') = Inr st' \<and>
     generatedQRs st' =
       \<lparr>qr_id = ascii ''2'', qr_type = ascii ''text'', qr_data = JString (ascii ''hi''),
        qr_dataUrl = ascii ''data:new'', qr_options = defaultOptions\<rparr>
       # replicate 9
           \<lparr>qr_id = ascii ''1'', qr_type = ascii ''url'', qr_data = JString (ascii ''https://a.b''),
            qr_dataUrl = ascii ''data:old'', qr_options = defaultOptions\<rparr> \<and>
     length (generatedQRs st') = 10)"
proof -
  let ?old = "\<lparr>qr_id = ascii ''1'', qr_type = ascii ''url'', qr_data = JString (ascii ''https://a.b''),
               qr_dataUrl = ascii ''data:old'', qr_options = defaultOptions\<rparr>"
  let ?st = "\<lparr>qrOptions = defaultOptions, generatedQRs = replicate 10 ?old,
              currentQR = ascii ''data:old''\<rparr>"
  let ?form = "\<lparr>trigger = True, getValues = [(''text'', JString (ascii ''hi''))]\<rparr>"
  have l: "length (generatedQRs ?st) \<le> 10"
    by simp
  have f: "map_of [(ascii ''text'', ?form)] (ascii ''text'') = Some ?form"
    by simp
  have g: "generateQRData (ascii ''text'') [(''text'', JString (ascii ''hi''))] = Inr (JString (ascii ''hi''))"
    by (simp add: generateQRData_def getProp_def)
  from f g
    history_bounded [of ?st "[(ascii ''text'', ?form)]" _ "ascii ''2''" "ascii ''text''" _ ?form
      "JString (ascii ''hi'')" "ascii ''data:new''"]
  obtain st' where
    "handleGenerate [(ascii ''text'', ?form)] (Inr (ascii ''data:new'')) (ascii ''2'') ?st
       (ascii ''text'') = Inr st'"
    and "generatedQRs st' =
       \<lparr>qr_id = ascii ''2'', qr_type = ascii ''text'', qr_data = JString (ascii ''hi''),
        qr_dataUrl = ascii ''data:new'', qr_options = defaultOptions\<rparr> # replicate 9 ?old"
    by auto
  with l f g show ?thesis
    by simp
qed

end
